theory Spec2Isabelle
  imports Complex_Main
begin

section \<open>Text primitives of the Python runtime\<close>

text \<open>
  A Python \<open>str\<close> is modelled as a \<open>string\<close>, one \<open>char\<close> per code point, for code
  points below 256.  On that range \<open>str.isspace\<close> holds for the code points 9..13,
  28..32, 133 and 160, and \<open>str.lower\<close> moves \<open>A..Z\<close> and the upper-case letters
  192..222 (without 215) up by 32 and leaves every other character alone.
\<close>

definition is_space :: "char \<Rightarrow> bool" where
  "is_space c =
     (let n = (of_char c :: nat)
      in (9 \<le> n \<and> n \<le> 13) \<or> (28 \<le> n \<and> n \<le> 32) \<or> n = 133 \<or> n = 160)"

definition lower_char :: "char \<Rightarrow> char" where
  "lower_char c =
     (let n = (of_char c :: nat)
      in if (65 \<le> n \<and> n \<le> 90) \<or> (192 \<le> n \<and> n \<le> 222 \<and> n \<noteq> 215)
         then char_of (n + 32) else c)"

definition py_lower :: "string \<Rightarrow> string" where
  "py_lower s = map lower_char s"

definition py_strip :: "string \<Rightarrow> string" where
  "py_strip s = rev (dropWhile is_space (rev (dropWhile is_space s)))"

text \<open>\<open>s.replace(old, new)\<close> for a single character \<open>old\<close>.\<close>

definition py_replace_char :: "char \<Rightarrow> string \<Rightarrow> string \<Rightarrow> string" where
  "py_replace_char old new s = concat (map (\<lambda>c. if c = old then new else [c]) s)"

text \<open>
  \<open>s.split()\<close>: the maximal runs of non-space characters, in order.  The first argument
  holds the current run, reversed.
\<close>

fun split_run :: "string \<Rightarrow> string \<Rightarrow> string list" where
  "split_run cur [] = (if cur = [] then [] else [rev cur])"
| "split_run cur (c # cs) =
     (if is_space c
      then (if cur = [] then split_run [] cs else rev cur # split_run [] cs)
      else split_run (c # cur) cs)"

definition py_split :: "string \<Rightarrow> string list" where
  "py_split s = split_run [] s"

fun py_join :: "string \<Rightarrow> string list \<Rightarrow> string" where
  "py_join sep [] = []"
| "py_join sep [x] = x"
| "py_join sep (x # y # ys) = x @ sep @ py_join sep (y # ys)"

text \<open>\<open>needle in hay\<close> for strings.\<close>

fun starts_with :: "string \<Rightarrow> string \<Rightarrow> bool" where
  "starts_with hay [] = True"
| "starts_with [] (k # ks) = False"
| "starts_with (c # cs) (k # ks) = (c = k \<and> starts_with cs ks)"

fun str_contains :: "string \<Rightarrow> string \<Rightarrow> bool" where
  "str_contains [] needle = (needle = [])"
| "str_contains (c # cs) needle = (starts_with (c # cs) needle \<or> str_contains cs needle)"

text \<open>\<open>str(n)\<close> for a natural number and for an integer.\<close>

definition digit_char :: "nat \<Rightarrow> char" where
  "digit_char d = ''0123456789'' ! (d mod 10)"

fun str_nat :: "nat \<Rightarrow> string" where
  "str_nat n = (if n < 10 then [digit_char n] else str_nat (n div 10) @ [digit_char (n mod 10)])"

declare str_nat.simps [simp del]

definition str_int :: "int \<Rightarrow> string" where
  "str_int i = (if i < 0 then ''-'' @ str_nat (nat (- i)) else str_nat (nat i))"


section \<open>Deduplicator (src/dedupe.py)\<close>

subsection \<open>Title normalisation and fingerprints\<close>

text \<open>
  \<open>_normalize_title\<close>: lower-case and strip, replace each of the eight punctuation
  characters by a space (one \<open>replace\<close> per character, in the order of the source's
  loop), then join the words with single spaces.
\<close>

definition normalize_title :: "string \<Rightarrow> string" where
  "normalize_title title =
     (if title = [] then []
      else py_join '' ''
             (py_split
                (fold (\<lambda>ch normalized. py_replace_char ch '' '' normalized)
                      ''.,;:!?-_'' (py_strip (py_lower title)))))"

text \<open>
  \<open>_compute_hash\<close> is \<open>hashlib.sha256(...).hexdigest()\<close>, a library function: every
  definition below takes it as the parameter \<open>H\<close>.  The combined key of an article is
  the f-string \<open>{canonical_url}|{normalized_title}\<close>.
\<close>

definition combined_key :: "string \<Rightarrow> string \<Rightarrow> string" where
  "combined_key canonical_url title = canonical_url @ ''|'' @ normalize_title title"

definition fingerprint_id :: "(string \<Rightarrow> string) \<Rightarrow> string \<Rightarrow> string \<Rightarrow> string" where
  "fingerprint_id H canonical_url title = H (combined_key canonical_url title)"

subsection \<open>The table \<open>article_hashes\<close>\<close>

record article_row =
  hash_id :: string
  canonical_url :: string
  normalized_title :: string
  title_hash :: string
  body_hash :: "string option"
  created_at :: string
  wp_post_id :: "int option"

text \<open>
  The table is the list of its rows in rowid order.  \<open>hash_id\<close> is the primary key:
  \<open>INSERT OR REPLACE\<close> deletes the row with the same key, if any, and appends the
  new row.
\<close>

type_synonym article_hashes = "article_row list"

definition insert_or_replace :: "article_row \<Rightarrow> article_hashes \<Rightarrow> article_hashes" where
  "insert_or_replace row db = filter (\<lambda>r. hash_id r \<noteq> hash_id row) db @ [row]"

text \<open>\<open>SELECT ... WHERE col = ?\<close> followed by \<open>fetchone()\<close> or \<open>fetchall()\<close>.\<close>

definition select_where :: "(article_row \<Rightarrow> string) \<Rightarrow> string \<Rightarrow> article_hashes \<Rightarrow> article_row list" where
  "select_where col v db = filter (\<lambda>r. col r = v) db"

definition fetchone :: "'a list \<Rightarrow> 'a option" where
  "fetchone rows = (case rows of [] \<Rightarrow> None | r # _ \<Rightarrow> Some r)"

subsection \<open>\<open>register_article\<close>\<close>

text \<open>
  \<open>now\<close> is the text of \<open>datetime.now().isoformat()\<close> at the call.  The body is
  hashed only when it is given and not empty.  The result is the returned \<open>hash_id\<close>
  and the table after the commit.
\<close>

definition new_row ::
  "(string \<Rightarrow> string) \<Rightarrow> string \<Rightarrow> string \<Rightarrow> string \<Rightarrow> string option \<Rightarrow> int option \<Rightarrow> article_row" where
  "new_row H now url title body wp =
     \<lparr> hash_id = fingerprint_id H url title,
       canonical_url = url,
       normalized_title = normalize_title title,
       title_hash = H (normalize_title title),
       body_hash = (case body of None \<Rightarrow> None
                    | Some b \<Rightarrow> if b = [] then None else Some (H b)),
       created_at = now,
       wp_post_id = wp \<rparr>"

definition register_article ::
  "(string \<Rightarrow> string) \<Rightarrow> string \<Rightarrow> article_hashes \<Rightarrow> string \<Rightarrow> string \<Rightarrow> string option \<Rightarrow> int option
     \<Rightarrow> string \<times> article_hashes" where
  "register_article H now db url title body wp =
     (fingerprint_id H url title, insert_or_replace (new_row H now url title body wp) db)"

subsection \<open>\<open>check_duplicate\<close>\<close>

record decision =
  is_duplicate :: bool
  reason :: "string option"
  similar_to :: "string option"
  matched_wp_post_id :: "int option"
  similarity_score :: "real option"

text \<open>
  The dictionary returned for a match carries the key \<open>wp_post_id\<close>
  (\<open>matched_wp_post_id\<close> here); the dictionary for no match has no such key, which is
  \<open>None\<close> in the record.
\<close>

definition duplicate_of :: "string \<Rightarrow> string \<Rightarrow> int option \<Rightarrow> real \<Rightarrow> decision" where
  "duplicate_of why h wp score =
     \<lparr> is_duplicate = True, reason = Some why, similar_to = Some h,
       matched_wp_post_id = wp, similarity_score = Some score \<rparr>"

definition not_duplicate :: decision where
  "not_duplicate =
     \<lparr> is_duplicate = False, reason = None, similar_to = None,
       matched_wp_post_id = None, similarity_score = None \<rparr>"

text \<open>
  The similarity oracle.  \<open>_get_model\<close> either raises (\<open>Inl\<close>, the model cannot be
  loaded), returns \<open>None\<close> (numpy and sentence_transformers are absent) or returns the model, whose
  \<open>encode\<close> may raise in turn.  \<open>_cosine_similarity\<close> is \<open>numpy.dot\<close>, which may
  raise as well.  Scores are real numbers.
\<close>

record 'e embedder =
  get_model :: "string + (string \<Rightarrow> string + 'e) option"
  cosine_similarity :: "'e \<Rightarrow> 'e \<Rightarrow> string + real"

definition compute_embedding :: "'e embedder \<Rightarrow> string \<Rightarrow> string + 'e option" where
  "compute_embedding orc txt =
     (case get_model orc of
        Inl e \<Rightarrow> Inl e
      | Inr None \<Rightarrow> Inr None
      | Inr (Some encode) \<Rightarrow>
          (case encode (take 1000 txt) of Inl e \<Rightarrow> Inl e | Inr v \<Rightarrow> Inr (Some v)))"

text \<open>
  The loop over \<open>title_matches\<close>, rows \<open>(hash_id, wp_post_id, normalized_title)\<close>; the
  accumulator is \<open>(best_similarity, best_match)\<close>.  An exception leaves the loop.
\<close>

fun best_title_match ::
  "'e embedder \<Rightarrow> 'e \<Rightarrow> (string \<times> int option \<times> string) list
     \<Rightarrow> real \<times> (string \<times> int option) option
     \<Rightarrow> string + (real \<times> (string \<times> int option) option)" where
  "best_title_match orc cur [] acc = Inr acc"
| "best_title_match orc cur ((match_hash_id, match_wp_id, match_title) # ms) (best, bm) =
     (case compute_embedding orc match_title of
        Inl e \<Rightarrow> Inl e
      | Inr None \<Rightarrow> best_title_match orc cur ms (best, bm)
      | Inr (Some match_emb) \<Rightarrow>
          (case cosine_similarity orc cur match_emb of
             Inl e \<Rightarrow> Inl e
           | Inr similarity \<Rightarrow>
               if similarity > best
               then best_title_match orc cur ms (similarity, Some (match_hash_id, match_wp_id))
               else best_title_match orc cur ms (best, bm)))"

text \<open>
  The body of the \<open>try\<close> block: \<open>Inl\<close> is an exception raised inside it,
  \<open>Inr (Some d)\<close> the decision it returns, \<open>Inr None\<close> falling through.  Indexing
  \<open>best_match\<close> when it is still \<open>None\<close> raises \<open>TypeError\<close>.
\<close>

definition semantic_title_check ::
  "'e embedder \<Rightarrow> real \<Rightarrow> string \<Rightarrow> (string \<times> int option \<times> string) list \<Rightarrow> string + decision option" where
  "semantic_title_check orc threshold ntitle title_matches =
     (case compute_embedding orc ntitle of
        Inl e \<Rightarrow> Inl e
      | Inr None \<Rightarrow> Inr None
      | Inr (Some cur) \<Rightarrow>
          (case best_title_match orc cur title_matches (0, None) of
             Inl e \<Rightarrow> Inl e
           | Inr (best, bm) \<Rightarrow>
               if best \<ge> threshold
               then (case bm of
                       None \<Rightarrow> Inl ''TypeError''
                     | Some (h, wp) \<Rightarrow> Inr (Some (duplicate_of ''semantic_similarity_title'' h wp best)))
               else Inr None))"

text \<open>
  \<open>check_duplicate\<close>: the three lookups in the order of the source.  The \<open>except\<close>
  clause logs the exception and goes on to the final \<open>return\<close>, so the function
  returns a decision on every path; the log lines themselves are left out.
\<close>

definition check_duplicate ::
  "(string \<Rightarrow> string) \<Rightarrow> 'e embedder \<Rightarrow> real \<Rightarrow> article_hashes \<Rightarrow> string \<Rightarrow> string \<Rightarrow> decision" where
  "check_duplicate H orc threshold db url title =
     (let ntitle = normalize_title title;
          thash = H ntitle;
          hid = H (url @ ''|'' @ ntitle)
      in case fetchone (select_where hash_id hid db) of
           Some exact_match \<Rightarrow>
             duplicate_of ''exact_hash_match'' (hash_id exact_match) (wp_post_id exact_match) 1
         | None \<Rightarrow>
            (case fetchone (select_where canonical_url url db) of
               Some url_match \<Rightarrow>
                 duplicate_of ''same_canonical_url'' (hash_id url_match) (wp_post_id url_match) 1
             | None \<Rightarrow>
                (let title_matches =
                       map (\<lambda>r. (hash_id r, wp_post_id r, normalized_title r))
                           (select_where title_hash thash db)
                 in if title_matches \<noteq> []
                    then (case semantic_title_check orc threshold ntitle title_matches of
                            Inl e \<Rightarrow> not_duplicate
                          | Inr None \<Rightarrow> not_duplicate
                          | Inr (Some d) \<Rightarrow> d)
                    else not_duplicate)))"

text \<open>A sequence of further registrations, each \<open>(now, url, title, body, wp_post_id)\<close>.\<close>

fun register_all ::
  "(string \<Rightarrow> string) \<Rightarrow> article_hashes \<Rightarrow> (string \<times> string \<times> string \<times> string option \<times> int option) list
     \<Rightarrow> article_hashes" where
  "register_all H db [] = db"
| "register_all H db ((now, url, title, body, wp) # rs) =
     register_all H (snd (register_article H now db url title body wp)) rs"


text \<open>
  Two ways in which the similarity oracle fails.  It is unavailable when \<open>_get_model\<close>
  returns \<open>None\<close>.  The comparison of a normalised title with the titles of the
  matching rows raises when one of the oracle calls made for it does: loading the model,
  encoding the new title, encoding a matching title, or the cosine of two embeddings.
\<close>

definition oracle_unavailable :: "'e embedder \<Rightarrow> bool" where
  "oracle_unavailable orc = (get_model orc = Inr None)"

fun raises :: "string + 'a \<Rightarrow> bool" where
  "raises (Inl e) = True"
| "raises (Inr v) = False"

definition match_raises :: "'e embedder \<Rightarrow> 'e \<Rightarrow> string \<Rightarrow> bool" where
  "match_raises orc cur match_title =
     (case compute_embedding orc match_title of
        Inl e \<Rightarrow> True
      | Inr None \<Rightarrow> False
      | Inr (Some v) \<Rightarrow> raises (cosine_similarity orc cur v))"

definition comparison_raises :: "'e embedder \<Rightarrow> string \<Rightarrow> string list \<Rightarrow> bool" where
  "comparison_raises orc ntitle match_titles =
     (case compute_embedding orc ntitle of
        Inl e \<Rightarrow> True
      | Inr None \<Rightarrow> False
      | Inr (Some cur) \<Rightarrow> list_ex (match_raises orc cur) match_titles)"

text \<open>
  Oracles for concrete runs: the one of an installation without the embedding libraries, and
  one whose model loads but whose \<open>encode\<close> raises on every text.
\<close>

definition absent_oracle :: "unit embedder" where
  "absent_oracle = \<lparr> get_model = Inr None, cosine_similarity = (\<lambda>a b. Inr 0) \<rparr>"

definition failing_oracle :: "unit embedder" where
  "failing_oracle =
     \<lparr> get_model = Inr (Some (\<lambda>txt. Inl ''CUDA out of memory'')),
       cosine_similarity = (\<lambda>a b. Inr 0) \<rparr>"


section \<open>Quality gates (src/quality_gates.py)\<close>

subsection \<open>Documents\<close>

text \<open>
  The documents are dictionaries with text values.  A field is \<open>None\<close> when the
  dictionary lacks the key, and \<open>d.get(key, default)\<close> is \<open>dict_get\<close>.
\<close>

definition dict_get :: "'a option \<Rightarrow> 'a \<Rightarrow> 'a" where
  "dict_get v dflt = (case v of None \<Rightarrow> dflt | Some x \<Rightarrow> x)"

record extracted =
  ex_url :: "string option"
  ex_canonical_url :: "string option"
  ex_title :: "string option"
  ex_text :: "string option"

record rewritten =
  headline :: "string option"
  lead :: "string option"
  body_markdown :: "string option"
  word_count :: "int option"

subsection \<open>The gate object\<close>

text \<open>
  The attributes of a \<open>QualityGates\<close> object, and the library functions it calls:
  \<open>encode_similarity\<close> loads the embedding model, encodes both texts and returns their
  dot product (\<open>Inl\<close> when any of that raises); \<open>re_search pattern text\<close> and
  \<open>re_search_ignorecase\<close> tell whether \<open>re.search\<close> finds a match; \<open>format_2f\<close> is the
  format \<open>{:.2f}\<close>.
\<close>

record quality_gates =
  similarity_threshold :: real
  min_length :: int
  max_length :: int
  risk_keywords_high :: "string list"
  risk_keywords_medium :: "string list"
  encode_similarity :: "string \<Rightarrow> string \<Rightarrow> string + real"
  re_search :: "string \<Rightarrow> string \<Rightarrow> bool"
  re_search_ignorecase :: "string \<Rightarrow> string \<Rightarrow> bool"
  format_2f :: "real \<Rightarrow> string"

text \<open>The constructor with its default arguments.\<close>

definition default_quality_gates ::
  "(string \<Rightarrow> string \<Rightarrow> string + real) \<Rightarrow> (string \<Rightarrow> string \<Rightarrow> bool) \<Rightarrow> (string \<Rightarrow> string \<Rightarrow> bool)
     \<Rightarrow> (real \<Rightarrow> string) \<Rightarrow> quality_gates" where
  "default_quality_gates sim search search_i fmt =
     \<lparr> similarity_threshold = 85 / 100,
       min_length = 200,
       max_length = 2000,
       risk_keywords_high =
         [''diffamazione'', ''calunnia'', ''hate speech'', ''incitamento'',
          ''dati sensibili'', ''codice fiscale'', ''numero carta'', ''password''],
       risk_keywords_medium = [''gossip'', ''scandalo'', ''polemica'', ''controversia''],
       encode_similarity = sim,
       re_search = search,
       re_search_ignorecase = search_i,
       format_2f = fmt \<rparr>"

subsection \<open>\<open>_check_similarity\<close>\<close>

definition check_similarity :: "quality_gates \<Rightarrow> string \<Rightarrow> string \<Rightarrow> bool \<times> real" where
  "check_similarity qg original_text rewritten_text =
     (case encode_similarity qg (take 2000 original_text) (take 2000 rewritten_text) of
        Inl e \<Rightarrow> (False, 0)
      | Inr similarity \<Rightarrow> (similarity \<ge> similarity_threshold qg, similarity))"

subsection \<open>\<open>_check_sanity\<close>\<close>

text \<open>
  The dictionary \<open>word_freq\<close> is an association list in insertion order;
  \<open>word_freq[word] = word_freq.get(word, 0) + 1\<close> is \<open>count_word\<close>.
\<close>

fun dict_set :: "'k \<Rightarrow> 'v \<Rightarrow> ('k \<times> 'v) list \<Rightarrow> ('k \<times> 'v) list" where
  "dict_set k v [] = [(k, v)]"
| "dict_set k v ((k', v') # kvs) =
     (if k = k' then (k, v) # kvs else (k', v') # dict_set k v kvs)"

definition count_word :: "string \<Rightarrow> (string \<times> nat) list \<Rightarrow> (string \<times> nat) list" where
  "count_word word word_freq = dict_set word (dict_get (map_of word_freq word) 0 + 1) word_freq"

definition word_freq_of :: "string list \<Rightarrow> (string \<times> nat) list" where
  "word_freq_of words =
     fold (\<lambda>word word_freq. if length word > 4 then count_word word word_freq else word_freq)
          words []"

text \<open>\<open>max(values) if values else 0\<close>.\<close>

fun max_or_zero :: "nat list \<Rightarrow> nat" where
  "max_or_zero [] = 0"
| "max_or_zero (x # xs) = fold max xs x"

definition dangerous_patterns :: "string list" where
  "dangerous_patterns = [''<script'', ''<iframe'', ''javascript:'', ''onclick='', ''onerror='']"

text \<open>
  The repetition guard compares \<open>max_freq\<close> with \<open>len(words) * 0.1\<close>.  The product is
  taken over the reals here; for fewer than \<open>10 ^ 15\<close> words the floating-point
  comparison of the source gives the same truth value.
\<close>

definition check_sanity :: "quality_gates \<Rightarrow> rewritten \<Rightarrow> string list" where
  "check_sanity qg rewritten_data =
     (let body = dict_get (body_markdown rewritten_data) [];
          headline = dict_get (headline rewritten_data) [];
          lead = dict_get (lead rewritten_data) [];
          word_count = dict_get (word_count rewritten_data) 0;
          words = py_split (py_lower body);
          max_freq = max_or_zero (map snd (word_freq_of words))
      in (if word_count < min_length qg
          then [''Articolo troppo corto: '' @ str_int word_count @ '' parole (min: ''
                  @ str_int (min_length qg) @ '')'']
          else [])
       @ (if word_count > max_length qg
          then [''Articolo troppo lungo: '' @ str_int word_count @ '' parole (max: ''
                  @ str_int (max_length qg) @ '')'']
          else [])
       @ (if body = [] \<or> length (py_strip body) < 100
          then [''Corpo articolo vuoto o troppo corto''] else [])
       @ (if headline = [] \<or> length (py_strip headline) < 10
          then [''Headline vuota o troppo corta''] else [])
       @ (if lead = [] \<or> length (py_strip lead) < 20
          then [''Lead vuoto o troppo corto''] else [])
       @ (if words \<noteq> [] \<and> real max_freq > real (length words) * (1 / 10)
          then [''Ripetizioni eccessive nel contenuto''] else [])
       @ concat (map (\<lambda>pattern.
                        if re_search_ignorecase qg pattern body
                        then [''Contenuto contiene pattern pericoloso: '' @ pattern]
                        else [])
                     dangerous_patterns))"

subsection \<open>\<open>_check_policy\<close>\<close>

text \<open>
  The three loops of \<open>_check_policy\<close>, each a fold over its list with the state
  \<open>(risk_level, issues)\<close>.  \<open>CHR 0x27\<close> is the apostrophe of the messages.
\<close>

definition high_step :: "string \<Rightarrow> string \<Rightarrow> string \<times> string list \<Rightarrow> string \<times> string list" where
  "high_step combined_text keyword st =
     (if str_contains combined_text (py_lower keyword)
      then (''high'',
            snd st @ [''Contenuto ad alto rischio: keyword '' @ [CHR 0x27] @ keyword
                        @ [CHR 0x27] @ '' trovata''])
      else st)"

definition medium_step :: "string \<Rightarrow> string \<Rightarrow> string \<times> string list \<Rightarrow> string \<times> string list" where
  "medium_step combined_text keyword st =
     (if str_contains combined_text (py_lower keyword)
      then (if fst st = ''low'' then ''medium'' else fst st,
            snd st @ [''Contenuto a medio rischio: keyword '' @ [CHR 0x27] @ keyword
                        @ [CHR 0x27] @ '' trovata''])
      else st)"

definition sensitive_step ::
  "quality_gates \<Rightarrow> string \<Rightarrow> string \<Rightarrow> string \<times> string list \<Rightarrow> string \<times> string list" where
  "sensitive_step qg combined_text pattern st =
     (if re_search qg pattern combined_text
      then (''high'', snd st @ [''Dati sensibili rilevati: pattern '' @ pattern])
      else st)"

text \<open>The three regular expressions; \<open>CHR 0x5C\<close> is the backslash.\<close>

definition sensitive_patterns :: "string list" where
  "sensitive_patterns =
     [[CHR 0x5C] @ ''b'' @ [CHR 0x5C] @ ''d{16}'' @ [CHR 0x5C] @ ''b'',
      [CHR 0x5C] @ ''b[A-Z]{6}'' @ [CHR 0x5C] @ ''d{2}[A-Z]'' @ [CHR 0x5C] @ ''d{2}[A-Z]''
        @ [CHR 0x5C] @ ''d{3}[A-Z]'' @ [CHR 0x5C] @ ''b'',
      [CHR 0x5C] @ ''b'' @ [CHR 0x5C] @ ''d{4}'' @ [CHR 0x5C] @ ''s?'' @ [CHR 0x5C] @ ''d{4}''
        @ [CHR 0x5C] @ ''s?'' @ [CHR 0x5C] @ ''d{4}'' @ [CHR 0x5C] @ ''s?'' @ [CHR 0x5C] @ ''d{4}''
        @ [CHR 0x5C] @ ''b'']"

definition check_policy :: "quality_gates \<Rightarrow> rewritten \<Rightarrow> extracted \<Rightarrow> string \<times> string list" where
  "check_policy qg rewritten_data original_data =
     (let body = py_lower (dict_get (body_markdown rewritten_data) []);
          headline = py_lower (dict_get (headline rewritten_data) []);
          lead = py_lower (dict_get (lead rewritten_data) []);
          combined_text = headline @ '' '' @ lead @ '' '' @ body;
          st1 = fold (high_step combined_text) (risk_keywords_high qg) (''low'', []);
          st2 = (if fst st1 \<noteq> ''high''
                 then fold (medium_step combined_text) (risk_keywords_medium qg) st1
                 else st1)
      in fold (sensitive_step qg combined_text) sensitive_patterns st2)"

text \<open>
  What holds of the state \<open>(risk_level, issues)\<close> throughout \<open>_check_policy\<close>: the
  level is \<open>low\<close> with no issue so far, or it is \<open>medium\<close> or \<open>high\<close>.
\<close>

definition policy_inv :: "string \<times> string list \<Rightarrow> bool" where
  "policy_inv st = ((fst st = ''low'' \<and> snd st = []) \<or> fst st = ''medium'' \<or> fst st = ''high'')"

subsection \<open>\<open>check\<close>\<close>

record verdict =
  ok :: bool
  issues :: "string list"
  risk_level :: string
  verdict_similarity_score :: real
  needs_review :: bool

definition check :: "quality_gates \<Rightarrow> extracted \<Rightarrow> rewritten \<Rightarrow> verdict" where
  "check qg original_data rewritten_data =
     (let original_text = dict_get (ex_text original_data) [];
          rewritten_text = dict_get (body_markdown rewritten_data) [];
          sim = check_similarity qg original_text rewritten_text;
          is_too_similar = fst sim;
          similarity_score = snd sim;
          similarity_issues =
            (if is_too_similar
             then [''Testo troppo simile all'originale (similarity: ''
                     @ format_2f qg similarity_score @ '')'']
             else []);
          sanity_issues = check_sanity qg rewritten_data;
          pol = check_policy qg rewritten_data original_data;
          risk_level = fst pol;
          policy_issues = snd pol;
          all_issues = similarity_issues @ sanity_issues @ policy_issues
      in \<lparr> ok = (all_issues = [] \<and> risk_level \<noteq> ''high''),
           issues = all_issues,
           risk_level = risk_level,
           verdict_similarity_score = similarity_score,
           needs_review = (risk_level = ''medium'' \<or> risk_level = ''high''
                           \<or> is_too_similar \<or> sanity_issues \<noteq> []) \<rparr>)"

text \<open>
  A gate object for concrete runs: the default thresholds and keywords, an embedding
  model that scores every pair of texts 0.5, and a regular-expression search that finds the
  fixed text of a dangerous pattern and never a sensitive-data shape.
\<close>

definition half_similarity :: "string \<Rightarrow> string \<Rightarrow> string + real" where
  "half_similarity a b = Inr (1 / 2)"

definition never_found :: "string \<Rightarrow> string \<Rightarrow> bool" where
  "never_found pattern txt = False"

definition literal_search_ignorecase :: "string \<Rightarrow> string \<Rightarrow> bool" where
  "literal_search_ignorecase pattern txt = str_contains (py_lower txt) (py_lower pattern)"

definition two_decimals :: "real \<Rightarrow> string" where
  "two_decimals x =
     str_nat (nat \<lfloor>x\<rfloor>) @ ''.'' @ str_nat (nat \<lfloor>x * 10\<rfloor> mod 10) @ str_nat (nat \<lfloor>x * 100\<rfloor> mod 10)"

definition example_gates :: quality_gates where
  "example_gates =
     default_quality_gates half_similarity never_found literal_search_ignorecase two_decimals"

definition example_original :: extracted where
  "example_original =
     \<lparr> ex_url = Some ''https://example.org/a'', ex_canonical_url = Some ''https://example.org/a'',
       ex_title = Some ''Breaking News: Rome!'', ex_text = Some ''Something happened in Rome.'' \<rparr>"

definition short_rewrite :: rewritten where
  "short_rewrite =
     \<lparr> headline = Some ''Rome, something happened'', lead = Some ''A short lead about it.'',
       body_markdown = Some ''Too short.'', word_count = Some 2 \<rparr>"


section \<open>Article and run orchestration (src/pipeline.py)\<close>

subsection \<open>Calls to collaborators\<close>

text \<open>
  A call to a collaborator returns a value, raises an exception that \<open>except Exception\<close>
  catches (with the text of \<open>str(e)\<close>), or is cut short by \<open>KeyboardInterrupt\<close>, which
  \<open>except Exception\<close> lets through.
\<close>

datatype 'a py_result = Returns 'a | Raises string | Interrupted

record candidate =
  cand_url :: string
  cand_source :: "string option"
  cand_title :: "string option"

text \<open>
  The components a \<open>NewsPipeline\<close> holds.  The fetcher, the extractor, the rewriter and
  the WordPress client are external; the Deduplicator and the quality gates are the ones
  above.  \<open>wp_client\<close> is \<open>None\<close> in a dry run or without a configured URL.  \<open>time_at k\<close>
  and \<open>isoformat_at k\<close> are what the wall clock shows at its \<open>k\<close>-th reading, as
  \<open>time.time()\<close> and as a formatted timestamp.
\<close>

record 'e pipeline =
  fetch_all :: "int option \<Rightarrow> candidate list py_result"
  extract_article :: "string \<Rightarrow> string option \<Rightarrow> extracted py_result"
  compute_hash :: "string \<Rightarrow> string"
  embedder :: "'e embedder"
  dedupe_threshold :: real
  rewrite_article :: "extracted \<Rightarrow> rewritten py_result"
  gates :: quality_gates
  wp_client :: "(rewritten \<Rightarrow> extracted \<Rightarrow> verdict \<Rightarrow> int option py_result) option"
  time_at :: "nat \<Rightarrow> real"
  isoformat_at :: "nat \<Rightarrow> string"

subsection \<open>Outcomes, run state and the world\<close>

type_synonym timing = "string \<rightharpoonup> real"

record outcome =
  status :: string
  outcome_reason :: "string option"
  post_id :: "int option"
  timing :: timing

record current_article =
  ca_url :: string
  ca_title :: string
  ca_number :: nat
  ca_total :: nat

record run_stats =
  total_candidates :: nat
  processed :: nat
  created :: nat
  skipped :: nat
  failed :: nat
  run_id :: string
  run_status :: string
  current_step :: string
  current_article :: "current_article option"
  started_at :: string
  completed_at :: "string option"

record audit_entry =
  au_operation :: string
  au_url :: string
  au_status :: string
  au_reason :: "string option"
  au_timing :: timing
  au_post_id :: "int option"

text \<open>
  The calls a run makes, in order, with the arguments that identify them.
\<close>

datatype call =
    CallExtract string "string option"
  | CallCheckDuplicate string string
  | CallRewrite
  | CallQualityCheck
  | CallSaveRewritten
  | CallCreatePost
  | CallRegister string string
  | CallSleep

text \<open>
  What the orchestration reads and writes: the table of the Deduplicator, the number of
  clock readings so far, the calls made so far, the content of \<open>pipeline_status.json\<close>,
  the audit file and the report files.
\<close>

record world =
  dedupe_db :: article_hashes
  clock :: nat
  calls :: "call list"
  status_file :: "run_stats option"
  audit_log :: "audit_entry list"
  reports :: "(string \<times> run_stats) list"

definition read_clock :: "'e pipeline \<Rightarrow> world \<Rightarrow> real \<times> world" where
  "read_clock env w = (time_at env (clock w), w\<lparr>clock := Suc (clock w)\<rparr>)"

definition read_timestamp :: "'e pipeline \<Rightarrow> world \<Rightarrow> string \<times> world" where
  "read_timestamp env w = (isoformat_at env (clock w), w\<lparr>clock := Suc (clock w)\<rparr>)"

definition add_call :: "call \<Rightarrow> world \<Rightarrow> world" where
  "add_call c w = w\<lparr>calls := calls w @ [c]\<rparr>"

definition mk_outcome :: "string \<Rightarrow> string option \<Rightarrow> int option \<Rightarrow> timing \<Rightarrow> outcome" where
  "mk_outcome st why pid tm = \<lparr> status = st, outcome_reason = why, post_id = pid, timing = tm \<rparr>"

subsection \<open>\<open>process_article\<close>\<close>

text \<open>
  The body of the \<open>try\<close> block, stage by stage.  Every stage returns the result of the
  block, the \<open>timing\<close> dictionary as it stands at that moment (the \<open>except\<close> clause
  goes on from it) and the world.
\<close>

definition publish_stage ::
  "'e pipeline \<Rightarrow> extracted \<Rightarrow> string \<Rightarrow> string \<Rightarrow> rewritten \<Rightarrow> verdict \<Rightarrow> real \<Rightarrow> timing \<Rightarrow> world
     \<Rightarrow> outcome py_result \<times> timing \<times> world" where
  "publish_stage env extracted_data url title rewritten_data quality_result start_time tm w =
     (case wp_client env of
        None \<Rightarrow> (Returns (mk_outcome ''skipped'' (Some ''wp_client_not_configured'') None tm), tm, w)
      | Some create_post_from_pipeline \<Rightarrow>
          (let (step_start, w1) = read_clock env w;
               w2 = add_call CallCreatePost w1
           in case create_post_from_pipeline rewritten_data extracted_data quality_result of
                Raises e \<Rightarrow> (Raises e, tm, w2)
              | Interrupted \<Rightarrow> (Interrupted, tm, w2)
              | Returns pid \<Rightarrow>
                  (let (t, w3) = read_clock env w2;
                       tm1 = tm(''wp_post'' \<mapsto> t - step_start)
                   in if pid = None \<or> pid = Some 0
                      then (Returns (mk_outcome ''failed'' (Some ''wp_post_creation_failed'') None tm1),
                            tm1, w3)
                      else
                        (let (now, w4) = read_timestamp env w3;
                             registered = register_article (compute_hash env) now (dedupe_db w4) url title
                                            (ex_text extracted_data) pid;
                             w5 = add_call (CallRegister url title) (w4\<lparr>dedupe_db := snd registered\<rparr>);
                             (t_end, w6) = read_clock env w5;
                             tm2 = tm1(''total'' \<mapsto> t_end - start_time)
                         in (Returns (mk_outcome ''created'' None pid tm2), tm2, w6)))))"

definition rewrite_stage ::
  "'e pipeline \<Rightarrow> extracted \<Rightarrow> string \<Rightarrow> string \<Rightarrow> real \<Rightarrow> timing \<Rightarrow> world
     \<Rightarrow> outcome py_result \<times> timing \<times> world" where
  "rewrite_stage env extracted_data url title start_time tm w =
     (let (step_start, w1) = read_clock env w;
          w2 = add_call CallRewrite w1
      in case rewrite_article env extracted_data of
           Raises e \<Rightarrow> (Raises e, tm, w2)
         | Interrupted \<Rightarrow> (Interrupted, tm, w2)
         | Returns rewritten_data \<Rightarrow>
             (let (t, w3) = read_clock env w2;
                  tm1 = tm(''rewrite'' \<mapsto> t - step_start);
                  (q_start, w4) = read_clock env w3;
                  quality_result = check (gates env) extracted_data rewritten_data;
                  w5 = add_call CallQualityCheck w4;
                  (q_end, w6) = read_clock env w5;
                  tm2 = tm1(''quality'' \<mapsto> q_end - q_start);
                  w7 = add_call CallSaveRewritten w6
              in if \<not> ok quality_result \<or> risk_level quality_result = ''high''
                 then (Returns (mk_outcome ''skipped''
                                  (Some (''quality_gate_failed: '' @ py_join '', '' (issues quality_result)))
                                  None tm2),
                       tm2, w7)
                 else publish_stage env extracted_data url title rewritten_data quality_result
                        start_time tm2 w7))"

text \<open>
  \<open>extracted_data["canonical_url"]\<close> and \<open>extracted_data["title"]\<close> raise \<open>KeyError\<close>
  for a missing key, before \<open>check_duplicate\<close> is called; \<open>str\<close> of the exception is the
  key between apostrophes.
\<close>

definition key_error :: "string \<Rightarrow> string" where
  "key_error k = [CHR 0x27] @ k @ [CHR 0x27]"

definition dedupe_stage ::
  "'e pipeline \<Rightarrow> extracted \<Rightarrow> real \<Rightarrow> timing \<Rightarrow> world \<Rightarrow> outcome py_result \<times> timing \<times> world" where
  "dedupe_stage env extracted_data start_time tm w =
     (let (step_start, w1) = read_clock env w
      in case ex_canonical_url extracted_data of
           None \<Rightarrow> (Raises (key_error ''canonical_url''), tm, w1)
         | Some url \<Rightarrow>
            (case ex_title extracted_data of
               None \<Rightarrow> (Raises (key_error ''title''), tm, w1)
             | Some title \<Rightarrow>
                (let dedupe_result = check_duplicate (compute_hash env) (embedder env)
                                       (dedupe_threshold env) (dedupe_db w1) url title;
                     w2 = add_call (CallCheckDuplicate url title) w1;
                     (t, w3) = read_clock env w2;
                     tm1 = tm(''dedupe'' \<mapsto> t - step_start)
                 in if is_duplicate dedupe_result
                    then (Returns (mk_outcome ''skipped''
                                     (Some (''duplicate: '' @ dict_get (reason dedupe_result) ''None''))
                                     None tm1),
                          tm1, w3)
                    else rewrite_stage env extracted_data url title start_time tm1 w3)))"

definition try_block ::
  "'e pipeline \<Rightarrow> candidate \<Rightarrow> real \<Rightarrow> world \<Rightarrow> outcome py_result \<times> timing \<times> world" where
  "try_block env candidate start_time w =
     (let (step_start, w1) = read_clock env w;
          w2 = add_call (CallExtract (cand_url candidate) (cand_source candidate)) w1
      in case extract_article env (cand_url candidate) (cand_source candidate) of
           Raises e \<Rightarrow> (Raises e, Map.empty, w2)
         | Interrupted \<Rightarrow> (Interrupted, Map.empty, w2)
         | Returns extracted_data \<Rightarrow>
             (let (t, w3) = read_clock env w2;
                  tm = [''extract'' \<mapsto> t - step_start];
                  text = py_strip (dict_get (ex_text extracted_data) []);
                  title = py_strip (dict_get (ex_title extracted_data) [])
              in if text = [] \<or> length text < 100
                 then (Returns (mk_outcome ''skipped''
                                  (Some (''empty_content: '' @ str_nat (length text) @ '' caratteri''))
                                  None tm),
                       tm, w3)
                 else if title = [] \<or> length title < 10
                 then (Returns (mk_outcome ''skipped''
                                  (Some (''empty_title: '' @ str_nat (length title) @ '' caratteri''))
                                  None tm),
                       tm, w3)
                 else dedupe_stage env extracted_data start_time tm w3))"

text \<open>
  \<open>process_article\<close>: the \<open>except Exception\<close> clause turns an exception of the block
  into a \<open>failed\<close> outcome with a \<open>total\<close> timing; a \<open>KeyboardInterrupt\<close> leaves the
  function.
\<close>

definition process_article :: "'e pipeline \<Rightarrow> candidate \<Rightarrow> world \<Rightarrow> outcome py_result \<times> world" where
  "process_article env candidate w =
     (let (start_time, w1) = read_clock env w;
          (r, tm, w2) = try_block env candidate start_time w1
      in case r of
           Returns result \<Rightarrow> (Returns result, w2)
         | Interrupted \<Rightarrow> (Interrupted, w2)
         | Raises e \<Rightarrow>
             (let (t, w3) = read_clock env w2
              in (Returns (mk_outcome ''failed'' (Some e) None (tm(''total'' \<mapsto> t - start_time))), w3)))"

subsection \<open>\<open>run\<close>\<close>

definition save_status :: "run_stats \<Rightarrow> world \<Rightarrow> world" where
  "save_status stats w = w\<lparr>status_file := Some stats\<rparr>"

definition log_operation :: "candidate \<Rightarrow> outcome \<Rightarrow> world \<Rightarrow> world" where
  "log_operation candidate result w =
     w\<lparr>audit_log := audit_log w @
          [\<lparr> au_operation = ''pipeline'', au_url = cand_url candidate, au_status = status result,
             au_reason = outcome_reason result, au_timing = timing result,
             au_post_id = post_id result \<rparr>]\<rparr>"

definition update_stats :: "outcome \<Rightarrow> run_stats \<Rightarrow> run_stats" where
  "update_stats result stats =
     (if status result = ''created'' then stats\<lparr>created := created stats + 1\<rparr>
      else if status result = ''skipped'' then stats\<lparr>skipped := skipped stats + 1\<rparr>
      else if status result = ''failed'' then stats\<lparr>failed := failed stats + 1\<rparr>
      else stats)"

text \<open>
  The loop over \<open>enumerate(candidates, 1)\<close>: \<open>i\<close> is the number of the first candidate
  of the list, \<open>n\<close> is \<open>len(candidates)\<close>.  The result tells how the loop ended, with
  the statistics and the world at that moment.
\<close>

fun process_candidates ::
  "'e pipeline \<Rightarrow> nat \<Rightarrow> nat \<Rightarrow> candidate list \<Rightarrow> run_stats \<Rightarrow> world
     \<Rightarrow> unit py_result \<times> run_stats \<times> world" where
  "process_candidates env n i [] stats w = (Returns (), stats, w)"
| "process_candidates env n i (candidate # rest) stats w =
     (let stats1 = stats\<lparr>current_article :=
                      Some \<lparr> ca_url = cand_url candidate,
                             ca_title = take 80 (dict_get (cand_title candidate) []),
                             ca_number = i, ca_total = n \<rparr>\<rparr>;
          w1 = save_status stats1 w
      in case process_article env candidate w1 of
           (Raises e, w2) \<Rightarrow> (Raises e, stats1, w2)
         | (Interrupted, w2) \<Rightarrow> (Interrupted, stats1, w2)
         | (Returns result, w2) \<Rightarrow>
             (let stats2 = stats1\<lparr>processed := processed stats1 + 1\<rparr>;
                  w3 = log_operation candidate result w2;
                  stats3 = update_stats result stats2;
                  w4 = (if i < n then add_call CallSleep w3 else w3)
              in process_candidates env n (Suc i) rest stats3 w4))"

text \<open>
  \<open>run\<close>: the run id comes from \<open>uuid4\<close>.  Both \<open>except\<close> clauses only log, and the
  \<open>finally\<close> clause completes the statistics, saves them and writes the report.
\<close>

definition initial_stats :: "string \<Rightarrow> string \<Rightarrow> run_stats" where
  "initial_stats rid now =
     \<lparr> total_candidates = 0, processed = 0, created = 0, skipped = 0, failed = 0,
       run_id = rid, run_status = ''running'', current_step = ''fetching'',
       current_article = None, started_at = now, completed_at = None \<rparr>"

definition run_body ::
  "'e pipeline \<Rightarrow> int option \<Rightarrow> run_stats \<Rightarrow> world \<Rightarrow> unit py_result \<times> run_stats \<times> world" where
  "run_body env limit stats w =
     (case fetch_all env limit of
        Raises e \<Rightarrow> (Raises e, stats, w)
      | Interrupted \<Rightarrow> (Interrupted, stats, w)
      | Returns candidates \<Rightarrow>
          (let stats1 = stats\<lparr>total_candidates := length candidates,
                              current_step := ''processing''\<rparr>;
               w1 = save_status stats1 w
           in process_candidates env (length candidates) 1 candidates stats1 w1))"

definition finalize :: "'e pipeline \<Rightarrow> run_stats \<Rightarrow> world \<Rightarrow> world" where
  "finalize env stats w =
     (let (now, w1) = read_timestamp env w;
          final = stats\<lparr>run_status := ''completed'', current_step := ''completed'',
                       current_article := None, completed_at := Some now\<rparr>;
          w2 = save_status final w1
      in w2\<lparr>reports := reports w2 @ [(run_id final, final)]\<rparr>)"

definition run :: "'e pipeline \<Rightarrow> string \<Rightarrow> int option \<Rightarrow> world \<Rightarrow> world" where
  "run env rid limit w =
     (let (now, w1) = read_timestamp env w;
          stats = initial_stats rid now;
          w2 = save_status stats w1;
          (r, stats1, w3) = run_body env limit stats w2
      in finalize env stats1 w3)"


section \<open>Continuous monitor (src/monitor.py)\<close>

record last_article =
  la_url :: "string option"
  la_title :: "string option"
  la_source :: "string option"
  la_processed_at :: string
  la_post_id :: "int option"

record monitor_stats =
  running :: bool
  monitor_started_at :: "string option"
  last_check :: "string option"
  poll_interval :: nat
  total_checks :: nat
  total_articles_found :: nat
  total_articles_processed :: nat
  last_articles :: "last_article list"

text \<open>
  A \<open>FeedMonitor\<close> object with what its \<open>start\<close> and \<open>stop\<close> touch: the flag, the
  statistics, whether the pipeline has been built, the number of live threads running
  \<open>_monitor_loop\<close>, the content of \<open>monitor_status.json\<close> and the log lines written,
  each with its level.
\<close>

record monitor =
  is_running :: bool
  stats :: monitor_stats
  pipeline_built :: bool
  live_loops :: nat
  stats_file :: "monitor_stats option"
  monitor_log :: "(string \<times> string) list"

definition new_monitor :: "nat \<Rightarrow> monitor" where
  "new_monitor interval =
     \<lparr> is_running = False,
       stats = \<lparr> running = False, monitor_started_at = None, last_check = None,
                 poll_interval = interval, total_checks = 0, total_articles_found = 0,
                 total_articles_processed = 0, last_articles = [] \<rparr>,
       pipeline_built = False,
       live_loops = 0,
       stats_file = None,
       monitor_log = [] \<rparr>"

definition save_stats :: "monitor \<Rightarrow> monitor" where
  "save_stats m = m\<lparr>stats_file := Some (stats m)\<rparr>"

definition log_line :: "string \<Rightarrow> string \<Rightarrow> monitor \<Rightarrow> monitor" where
  "log_line level msg m = m\<lparr>monitor_log := monitor_log m @ [(level, msg)]\<rparr>"

text \<open>
  \<open>start\<close>: \<open>now\<close> is the timestamp of the call, \<open>build\<close> the result of constructing the
  \<open>NewsPipeline\<close>; when the constructor raises, \<open>start\<close> raises with the flag already set
  and no thread started.  \<open>CHR 0xE0\<close> is the letter a with a grave accent.
\<close>

definition start :: "string \<Rightarrow> unit py_result \<Rightarrow> monitor \<Rightarrow> unit py_result \<times> monitor" where
  "start now build m =
     (if is_running m
      then (Returns (), log_line ''warning'' (''Monitor gi'' @ [CHR 0xE0] @ '' in esecuzione'') m)
      else
        (let m1 = m\<lparr>is_running := True,
                     stats := (stats m)\<lparr>running := True, monitor_started_at := Some now\<rparr>\<rparr>;
             m2 = save_stats m1
         in case build of
              Raises e \<Rightarrow> (Raises e, m2)
            | Interrupted \<Rightarrow> (Interrupted, m2)
            | Returns u \<Rightarrow>
                (let m3 = m2\<lparr>pipeline_built := True, live_loops := Suc (live_loops m2)\<rparr>
                 in (Returns (),
                     log_line ''info''
                       (''Monitor avviato (controllo ogni '' @ str_nat (poll_interval (stats m3))
                          @ '' secondi)'') m3))))"

definition stop :: "monitor \<Rightarrow> monitor" where
  "stop m =
     (if \<not> is_running m
      then log_line ''warning'' ''Monitor non in esecuzione'' m
      else log_line ''info'' ''Monitor fermato''
             (save_stats (m\<lparr>is_running := False, stats := (stats m)\<lparr>running := False\<rparr>\<rparr>)))"

text \<open>
  One live thread evaluates the condition of its loop (\<open>while self.is_running\<close>, or the
  test inside the sleep): it goes on when the flag is set and ends when it is not.
\<close>

definition loop_poll :: "monitor \<Rightarrow> monitor" where
  "loop_poll m =
     (if is_running m \<or> live_loops m = 0 then m else m\<lparr>live_loops := live_loops m - 1\<rparr>)"

fun loop_polls :: "nat \<Rightarrow> monitor \<Rightarrow> monitor" where
  "loop_polls 0 m = m"
| "loop_polls (Suc k) m = loop_polls k (loop_poll m)"

text \<open>
  What can happen to a monitor: a call of \<open>start\<close> (with its timestamp and the result of
  building the pipeline; an exception of \<open>start\<close> is caught by the caller, who keeps the
  object), a call of \<open>stop\<close>, and a poll of a loop thread.
\<close>

datatype monitor_op = OpStart string "unit py_result" | OpStop | OpPoll

fun apply_op :: "monitor_op \<Rightarrow> monitor \<Rightarrow> monitor" where
  "apply_op (OpStart now build) m = snd (start now build m)"
| "apply_op OpStop m = stop m"
| "apply_op OpPoll m = loop_poll m"


subsection \<open>A pipeline for concrete runs\<close>

text \<open>
  A dry-run pipeline (no WordPress client) whose extractor fails on one URL with an HTTP
  error, finds a five-character title and a long text on a second, and a text that is too
  short everywhere else; the clock advances by one second at every reading.
\<close>

definition long_text :: string where
  "long_text = concat (replicate 12 ''Rome woke up to news today. '')"

definition example_extract :: "string \<Rightarrow> string option \<Rightarrow> extracted py_result" where
  "example_extract url source_name =
     (if url = ''https://example.org/broken'' then Raises ''500 Server Error''
      else if url = ''https://example.org/hello''
      then Returns \<lparr> ex_url = Some url, ex_canonical_url = Some url,
                     ex_title = Some ''Hello'', ex_text = Some long_text \<rparr>
      else Returns \<lparr> ex_url = Some url, ex_canonical_url = Some url,
                     ex_title = Some ''Breaking News: Rome!'', ex_text = Some ''Too short.'' \<rparr>)"

definition example_candidate :: "string \<Rightarrow> candidate" where
  "example_candidate url = \<lparr> cand_url = url, cand_source = Some ''Example'', cand_title = None \<rparr>"

definition example_fetch :: "int option \<Rightarrow> candidate list py_result" where
  "example_fetch limit =
     Returns [example_candidate ''https://example.org/one'',
              example_candidate ''https://example.org/broken'',
              example_candidate ''https://example.org/three'']"

definition example_rewrite :: "extracted \<Rightarrow> rewritten py_result" where
  "example_rewrite extracted_data = Returns short_rewrite"

definition example_timestamp :: "nat \<Rightarrow> string" where
  "example_timestamp k = ''2024-05-01T10:00:'' @ str_nat (k div 10 mod 6) @ str_nat (k mod 10)"

definition example_pipeline :: "unit pipeline" where
  "example_pipeline =
     \<lparr> fetch_all = example_fetch,
       extract_article = example_extract,
       compute_hash = id,
       embedder = absent_oracle,
       dedupe_threshold = 85 / 100,
       rewrite_article = example_rewrite,
       gates = example_gates,
       wp_client = None,
       time_at = real,
       isoformat_at = example_timestamp \<rparr>"

definition empty_world :: world where
  "empty_world =
     \<lparr> dedupe_db = [], clock = 0, calls = [], status_file = None, audit_log = [], reports = [] \<rparr>"


section \<open>Properties of the Deduplicator\<close>

lemma select_nonempty_iff:
  "select_where col v db \<noteq> [] \<longleftrightarrow> (\<exists>r \<in> set db. col r = v)"
  by (simp add: select_where_def filter_empty_conv)

lemma set_insert_or_replace:
  "set (insert_or_replace row db) = insert row {r \<in> set db. hash_id r \<noteq> hash_id row}"
  by (auto simp: insert_or_replace_def)

lemma select_insert_same:
  "select_where hash_id (hash_id row) (insert_or_replace row db) = [row]"
proof -
  have "filter (\<lambda>r. hash_id r = hash_id row) (filter (\<lambda>r. hash_id r \<noteq> hash_id row) db) = []"
    by (induction db) auto
  then show ?thesis
    by (simp add: select_where_def insert_or_replace_def)
qed

lemma select_insert_nonempty:
  assumes "select_where hash_id h db \<noteq> []"
  shows "select_where hash_id h (insert_or_replace row db) \<noteq> []"
proof (cases "hash_id row = h")
  case True
  then have "row \<in> set (insert_or_replace row db) \<and> hash_id row = h"
    by (simp add: set_insert_or_replace)
  then show ?thesis unfolding select_nonempty_iff by blast
next
  case False
  from assms obtain r where r: "r \<in> set db" "hash_id r = h"
    unfolding select_nonempty_iff by blast
  with False have "r \<in> set (insert_or_replace row db)"
    by (simp add: set_insert_or_replace)
  with r show ?thesis unfolding select_nonempty_iff by blast
qed

lemma select_register_all_nonempty:
  "select_where hash_id h db \<noteq> [] \<Longrightarrow> select_where hash_id h (register_all H db rs) \<noteq> []"
proof (induction rs arbitrary: db)
  case Nil
  then show ?case by simp
next
  case (Cons a rs)
  obtain now url title body wp where a: "a = (now, url, title, body, wp)"
    by (cases a) auto
  have "select_where hash_id h (insert_or_replace (new_row H now url title body wp) db) \<noteq> []"
    using Cons.prems by (rule select_insert_nonempty)
  then have "select_where hash_id h
               (register_all H (insert_or_replace (new_row H now url title body wp) db) rs) \<noteq> []"
    by (rule Cons.IH)
  then show ?case by (simp add: a register_article_def)
qed

lemma select_where_hash_id:
  "r \<in> set (select_where hash_id h db) \<Longrightarrow> hash_id r = h"
  by (simp add: select_where_def)

lemma check_duplicate_exact:
  assumes "select_where hash_id (fingerprint_id H url title) db \<noteq> []"
  shows "is_duplicate (check_duplicate H orc thr db url title)
       \<and> reason (check_duplicate H orc thr db url title) = Some ''exact_hash_match''
       \<and> similar_to (check_duplicate H orc thr db url title) = Some (fingerprint_id H url title)
       \<and> similarity_score (check_duplicate H orc thr db url title) = Some 1"
proof -
  obtain r rs where sel: "select_where hash_id (fingerprint_id H url title) db = r # rs"
    using assms by (cases "select_where hash_id (fingerprint_id H url title) db") auto
  then have "r \<in> set (select_where hash_id (fingerprint_id H url title) db)" by simp
  then have "hash_id r = fingerprint_id H url title" by (rule select_where_hash_id)
  with sel show ?thesis
    by (simp add: check_duplicate_def fingerprint_id_def combined_key_def Let_def
        fetchone_def duplicate_of_def)
qed

lemma select_after_register:
  "select_where hash_id (fingerprint_id H url title)
     (snd (register_article H now db url title body wp)) = [new_row H now url title body wp]"
  using select_insert_same [of "new_row H now url title body wp" db]
  by (simp add: register_article_def new_row_def)

lemma normalize_title_examples:
  "normalize_title ''c'' = ''c''"
  "normalize_title ''b|c'' = ''b|c''"
  "normalize_title ''Breaking News: Rome!'' = ''breaking news rome''"
  "normalize_title ''  breaking-news   ROME '' = ''breaking news rome''"
  by code_simp+

text \<open>
  C1 (as the code has it).  Once a \<open>(canonical_url, title)\<close> pair has been registered,
  whatever the table held before and whatever is registered afterwards, \<open>check_duplicate\<close>
  on the same pair answers \<open>is_duplicate = True\<close> with similarity 1.0, names the registered
  fingerprint, and gives the reason \<open>exact_hash_match\<close>.
\<close>

theorem check_duplicate_registered:
  "is_duplicate (check_duplicate H orc thr
       (register_all H (snd (register_article H now db url title body wp)) later) url title)
   \<and> reason (check_duplicate H orc thr
       (register_all H (snd (register_article H now db url title body wp)) later) url title)
       = Some ''exact_hash_match''
   \<and> similar_to (check_duplicate H orc thr
       (register_all H (snd (register_article H now db url title body wp)) later) url title)
       = Some (fst (register_article H now db url title body wp))
   \<and> similarity_score (check_duplicate H orc thr
       (register_all H (snd (register_article H now db url title body wp)) later) url title)
       = Some 1"
proof -
  have "select_where hash_id (fingerprint_id H url title)
          (snd (register_article H now db url title body wp)) \<noteq> []"
    by (simp add: select_after_register)
  then have "select_where hash_id (fingerprint_id H url title)
          (register_all H (snd (register_article H now db url title body wp)) later) \<noteq> []"
    by (rule select_register_all_nonempty)
  then show ?thesis
    using check_duplicate_exact by (simp add: register_article_def)
qed

theorem check_duplicate_registered_witness:
  "is_duplicate (check_duplicate id absent_oracle (85 / 100)
       (register_all id (snd (register_article id ''2024-05-01T10:00:00'' []
            ''https://example.org/a'' ''Breaking News: Rome!'' None (Some 7)))
          [(''2024-05-01T11:00:00'', ''https://example.org/b'', ''Other story'', None, None)])
       ''https://example.org/a'' ''Breaking News: Rome!'')
   \<and> reason (check_duplicate id absent_oracle (85 / 100)
       (register_all id (snd (register_article id ''2024-05-01T10:00:00'' []
            ''https://example.org/a'' ''Breaking News: Rome!'' None (Some 7)))
          [(''2024-05-01T11:00:00'', ''https://example.org/b'', ''Other story'', None, None)])
       ''https://example.org/a'' ''Breaking News: Rome!'') = Some ''exact_hash_match''"
  using check_duplicate_registered [where H = id and orc = absent_oracle and thr = "85 / 100"
      and now = "''2024-05-01T10:00:00''" and db = "[]" and url = "''https://example.org/a''"
      and title = "''Breaking News: Rome!''" and body = None and wp = "Some 7"
      and later = "[(''2024-05-01T11:00:00'', ''https://example.org/b'', ''Other story'', None, None)]"]
  by simp

text \<open>
  C1 as the specification words it fails on the label: the reason returned for a
  registered pair is not \<open>exact_match\<close>.
\<close>

theorem check_duplicate_reason_counterexample:
  "reason (check_duplicate id absent_oracle (85 / 100)
       (snd (register_article id ''2024-05-01T10:00:00'' []
            ''https://example.org/a'' ''Breaking News: Rome!'' None (Some 7)))
       ''https://example.org/a'' ''Breaking News: Rome!'') \<noteq> Some ''exact_match''"
proof -
  have "select_where hash_id (fingerprint_id id ''https://example.org/a'' ''Breaking News: Rome!'')
          (snd (register_article id ''2024-05-01T10:00:00'' []
            ''https://example.org/a'' ''Breaking News: Rome!'' None (Some 7))) \<noteq> []"
    by (simp add: select_after_register)
  from check_duplicate_exact [OF this, of absent_oracle "85 / 100"]
  show ?thesis by simp
qed

text \<open>
  C2.  Registering the same \<open>(canonical_url, title)\<close> pair twice returns the same
  fingerprint id both times, and afterwards the table holds exactly one row with that id:
  the row built from the second call's body, time and post id.
\<close>

theorem register_article_idempotent:
  "fst (register_article H now2 (snd (register_article H now1 db url title body1 wp1))
          url title body2 wp2)
     = fst (register_article H now1 db url title body1 wp1)
   \<and> select_where hash_id (fst (register_article H now1 db url title body1 wp1))
       (snd (register_article H now2 (snd (register_article H now1 db url title body1 wp1))
          url title body2 wp2))
     = [new_row H now2 url title body2 wp2]
   \<and> length (select_where hash_id (fst (register_article H now1 db url title body1 wp1))
       (snd (register_article H now2 (snd (register_article H now1 db url title body1 wp1))
          url title body2 wp2))) = 1"
proof -
  have id1: "\<And>now db body wp. fst (register_article H now db url title body wp) = fingerprint_id H url title"
    by (simp add: register_article_def)
  show ?thesis
    by (simp add: id1 select_after_register)
qed

theorem register_article_idempotent_witness:
  "select_where hash_id (fst (register_article id ''2024-05-01T10:00:00'' [] ''https://example.org/a'' ''c'' None (Some 7)))
       (snd (register_article id ''2024-05-02T09:30:00''
          (snd (register_article id ''2024-05-01T10:00:00'' [] ''https://example.org/a'' ''c'' None (Some 7)))
          ''https://example.org/a'' ''c'' (Some ''new body'') (Some 8)))
     = [\<lparr> hash_id = ''https://example.org/a|c'', canonical_url = ''https://example.org/a'',
          normalized_title = ''c'', title_hash = ''c'', body_hash = Some ''new body'',
          created_at = ''2024-05-02T09:30:00'', wp_post_id = Some 8 \<rparr>]"
  using register_article_idempotent [where H = id and ?now1.0 = "''2024-05-01T10:00:00''"
      and ?now2.0 = "''2024-05-02T09:30:00''" and db = "[]" and url = "''https://example.org/a''"
      and title = "''c''" and ?body1.0 = None and ?wp1.0 = "Some 7"
      and ?body2.0 = "Some ''new body''" and ?wp2.0 = "Some 8"]
  by (simp add: new_row_def fingerprint_id_def combined_key_def normalize_title_examples)

lemma best_title_match_raises:
  "list_ex (\<lambda>(h, w, t). match_raises orc cur t) ms \<Longrightarrow> \<exists>e. best_title_match orc cur ms acc = Inl e"
proof (induction ms arbitrary: acc)
  case Nil
  then show ?case by simp
next
  case (Cons m ms)
  obtain h w t where m: "m = (h, w, t)" by (cases m) auto
  obtain best bm where acc: "acc = (best, bm)" by (cases acc) auto
  show ?case
  proof (cases "match_raises orc cur t")
    case True
    then show ?thesis
      by (auto simp: m acc match_raises_def split: sum.splits option.splits)
  next
    case False
    with Cons.prems have "list_ex (\<lambda>(h, w, t). match_raises orc cur t) ms"
      by (simp add: m)
    then have "\<And>acc'. \<exists>e. best_title_match orc cur ms acc' = Inl e"
      by (rule Cons.IH)
    then show ?thesis
      by (auto simp: m acc split: sum.splits option.splits)
  qed
qed

lemma semantic_title_check_fails:
  assumes "oracle_unavailable orc \<or> comparison_raises orc ntitle (map (\<lambda>(h, w, t). t) ms)"
  shows "semantic_title_check orc thr ntitle ms = Inr None
       \<or> (\<exists>e. semantic_title_check orc thr ntitle ms = Inl e)"
proof (cases "compute_embedding orc ntitle")
  case (Inl e)
  then show ?thesis by (simp add: semantic_title_check_def)
next
  case (Inr v)
  show ?thesis
  proof (cases v)
    case None
    with Inr show ?thesis by (simp add: semantic_title_check_def)
  next
    case (Some cur)
    with Inr have "\<not> oracle_unavailable orc"
      by (auto simp: oracle_unavailable_def compute_embedding_def)
    with assms Inr Some have "list_ex (match_raises orc cur) (map (\<lambda>(h, w, t). t) ms)"
      by (simp add: comparison_raises_def)
    then have "list_ex (\<lambda>(h, w, t). match_raises orc cur t) ms"
      by (simp add: list_ex_iff split_def)
    from best_title_match_raises [OF this, of "(0, None)"]
    obtain e where "best_title_match orc cur ms (0, None) = Inl e" by blast
    with Inr Some show ?thesis by (simp add: semantic_title_check_def)
  qed
qed

text \<open>
  C3.  When no stored row has the article's fingerprint and none has its canonical URL,
  and the similarity oracle is unavailable or an oracle call of the title comparison
  raises, \<open>check_duplicate\<close> returns the not-a-duplicate decision, rows with the same
  title hash notwithstanding.  The result is an ordinary return value: the exception
  stays inside the call.
\<close>

theorem check_duplicate_oracle_failure:
  assumes "select_where hash_id (fingerprint_id H url title) db = []"
      and "select_where canonical_url url db = []"
      and "oracle_unavailable orc
           \<or> comparison_raises orc (normalize_title title)
                 (map normalized_title (select_where title_hash (H (normalize_title title)) db))"
  shows "check_duplicate H orc thr db url title = not_duplicate"
proof -
  let ?ms = "map (\<lambda>r. (hash_id r, wp_post_id r, normalized_title r))
               (select_where title_hash (H (normalize_title title)) db)"
  have "map (\<lambda>(h, w, t). t) ?ms
          = map normalized_title (select_where title_hash (H (normalize_title title)) db)"
    by (simp add: comp_def)
  with assms(3) have "oracle_unavailable orc
      \<or> comparison_raises orc (normalize_title title) (map (\<lambda>(h, w, t). t) ?ms)"
    by (simp only:)
  then have "semantic_title_check orc thr (normalize_title title) ?ms = Inr None
       \<or> (\<exists>e. semantic_title_check orc thr (normalize_title title) ?ms = Inl e)"
    by (rule semantic_title_check_fails)
  with assms(1,2) show ?thesis
    by (auto simp: check_duplicate_def fingerprint_id_def combined_key_def Let_def fetchone_def)
qed

theorem check_duplicate_oracle_failure_witness:
  "select_where title_hash (id (normalize_title ''  breaking-news   ROME ''))
       (snd (register_article id ''2024-05-01T10:00:00'' []
               ''https://example.org/b'' ''Breaking News: Rome!'' None (Some 7))) \<noteq> []
   \<and> check_duplicate id failing_oracle (85 / 100)
       (snd (register_article id ''2024-05-01T10:00:00'' []
               ''https://example.org/b'' ''Breaking News: Rome!'' None (Some 7)))
       ''https://example.org/a'' ''  breaking-news   ROME '' = not_duplicate
   \<and> check_duplicate id absent_oracle (85 / 100)
       (snd (register_article id ''2024-05-01T10:00:00'' []
               ''https://example.org/b'' ''Breaking News: Rome!'' None (Some 7)))
       ''https://example.org/a'' ''  breaking-news   ROME '' = not_duplicate"
proof -
  let ?db = "snd (register_article id ''2024-05-01T10:00:00'' []
               ''https://example.org/b'' ''Breaking News: Rome!'' None (Some 7))"
  have db: "?db = [new_row id ''2024-05-01T10:00:00'' ''https://example.org/b''
                     ''Breaking News: Rome!'' None (Some 7)]"
    by (simp add: register_article_def insert_or_replace_def)
  have h1: "select_where hash_id
              (fingerprint_id id ''https://example.org/a'' ''  breaking-news   ROME '') ?db = []"
    by (simp add: db select_where_def new_row_def fingerprint_id_def combined_key_def
        normalize_title_examples)
  have h2: "select_where canonical_url ''https://example.org/a'' ?db = []"
    by (simp add: db select_where_def new_row_def)
  have h0: "select_where title_hash (id (normalize_title ''  breaking-news   ROME '')) ?db \<noteq> []"
    by (simp add: db select_where_def new_row_def normalize_title_examples)
  have h3: "oracle_unavailable failing_oracle
           \<or> comparison_raises failing_oracle (normalize_title ''  breaking-news   ROME '')
                 (map normalized_title
                    (select_where title_hash (id (normalize_title ''  breaking-news   ROME '')) ?db))"
    by (simp add: comparison_raises_def compute_embedding_def failing_oracle_def)
  have h4: "oracle_unavailable absent_oracle
           \<or> comparison_raises absent_oracle (normalize_title ''  breaking-news   ROME '')
                 (map normalized_title
                    (select_where title_hash (id (normalize_title ''  breaking-news   ROME '')) ?db))"
    by (simp add: oracle_unavailable_def absent_oracle_def)
  show ?thesis
    by (rule conjI [OF h0 conjI [OF check_duplicate_oracle_failure [OF h1 h2 h3]
          check_duplicate_oracle_failure [OF h1 h2 h4]]])
qed

text \<open>
  C10.  The combined key joins the canonical URL and the normalised title with \<open>|\<close>,
  and neither part is escaped: the article with canonical URL \<open>a|b\<close> and title \<open>c\<close> and
  the article with canonical URL \<open>a\<close> and title \<open>b|c\<close> get the same fingerprint id, for
  every hash function.  \<open>register_article\<close> returns the same id for both, registering the
  second replaces the row of the first, and \<open>check_duplicate\<close> reports the second as an
  exact match of the first.
\<close>

theorem separator_collision:
  "fingerprint_id H ''a|b'' ''c'' = fingerprint_id H ''a'' ''b|c''
   \<and> fst (register_article H now1 db1 ''a|b'' ''c'' body1 wp1)
       = fst (register_article H now2 db2 ''a'' ''b|c'' body2 wp2)
   \<and> snd (register_article H now2 (snd (register_article H now1 [] ''a|b'' ''c'' body1 wp1))
            ''a'' ''b|c'' body2 wp2)
       = [new_row H now2 ''a'' ''b|c'' body2 wp2]
   \<and> reason (check_duplicate H orc thr (snd (register_article H now1 db1 ''a|b'' ''c'' body1 wp1))
            ''a'' ''b|c'') = Some ''exact_hash_match''"
proof -
  have same: "fingerprint_id H ''a|b'' ''c'' = fingerprint_id H ''a'' ''b|c''"
    by (simp add: fingerprint_id_def combined_key_def normalize_title_examples)
  have "select_where hash_id (fingerprint_id H ''a'' ''b|c'')
          (snd (register_article H now1 db1 ''a|b'' ''c'' body1 wp1)) \<noteq> []"
    using select_after_register [of H "''a|b''" "''c''" now1 db1 body1 wp1]
    by (simp add: same)
  then have "reason (check_duplicate H orc thr
                (snd (register_article H now1 db1 ''a|b'' ''c'' body1 wp1)) ''a'' ''b|c'')
              = Some ''exact_hash_match''"
    using check_duplicate_exact by blast
  moreover have "snd (register_article H now2 (snd (register_article H now1 [] ''a|b'' ''c'' body1 wp1))
            ''a'' ''b|c'' body2 wp2) = [new_row H now2 ''a'' ''b|c'' body2 wp2]"
    by (simp add: register_article_def insert_or_replace_def new_row_def same)
  ultimately show ?thesis
    by (simp add: same register_article_def)
qed

theorem separator_collision_witness:
  "(''a|b'', ''c'') \<noteq> (''a'', ''b|c'')
   \<and> fst (register_article id ''2024-05-01T10:00:00'' [] ''a|b'' ''c'' None (Some 1)) = ''a|b|c''
   \<and> fst (register_article id ''2024-05-02T10:00:00'' [] ''a'' ''b|c'' None (Some 2)) = ''a|b|c''
   \<and> snd (register_article id ''2024-05-02T10:00:00''
            (snd (register_article id ''2024-05-01T10:00:00'' [] ''a|b'' ''c'' None (Some 1)))
            ''a'' ''b|c'' None (Some 2))
       = [\<lparr> hash_id = ''a|b|c'', canonical_url = ''a'', normalized_title = ''b|c'',
            title_hash = ''b|c'', body_hash = None, created_at = ''2024-05-02T10:00:00'',
            wp_post_id = Some 2 \<rparr>]"
  using separator_collision [where H = id and ?now1.0 = "''2024-05-01T10:00:00''"
      and ?now2.0 = "''2024-05-02T10:00:00''" and ?db1.0 = "[]" and ?db2.0 = "[]"
      and ?body1.0 = None and ?body2.0 = None and ?wp1.0 = "Some 1" and ?wp2.0 = "Some 2"
      and orc = absent_oracle and thr = "85 / 100"]
  by (simp add: new_row_def register_article_def fingerprint_id_def combined_key_def
      normalize_title_examples)

section \<open>Properties of the quality gates\<close>

lemma check_ok:
  "ok (check qg orig rw)
     = ((\<not> fst (check_similarity qg (dict_get (ex_text orig) []) (dict_get (body_markdown rw) []))
         \<and> check_sanity qg rw = [] \<and> snd (check_policy qg rw orig) = [])
        \<and> fst (check_policy qg rw orig) \<noteq> ''high'')"
  by (simp add: check_def Let_def)

lemma check_needs_review:
  "needs_review (check qg orig rw)
     = (fst (check_policy qg rw orig) = ''medium'' \<or> fst (check_policy qg rw orig) = ''high''
        \<or> fst (check_similarity qg (dict_get (ex_text orig) []) (dict_get (body_markdown rw) []))
        \<or> check_sanity qg rw \<noteq> [])"
  by (simp add: check_def Let_def)

lemma check_risk_level:
  "risk_level (check qg orig rw) = fst (check_policy qg rw orig)"
  by (simp add: check_def Let_def)

text \<open>
  C4.  In the verdict of \<open>check\<close>, \<open>ok\<close> (the specification's \<open>passed\<close>) holds exactly when
  the similarity check did not flag the text, the sanity check and the policy check
  returned no issue, and the risk level is not \<open>high\<close>; \<open>needs_review\<close> holds exactly when
  the risk level is \<open>medium\<close> or \<open>high\<close>, or the similarity check flagged the text, or the
  sanity check returned an issue.  The risk level is the one of the policy check, and the
  verdict lists no issue exactly when no sub-check produced one.
\<close>

theorem check_aggregate:
  "ok (check qg orig rw)
     = ((\<not> fst (check_similarity qg (dict_get (ex_text orig) []) (dict_get (body_markdown rw) []))
         \<and> check_sanity qg rw = [] \<and> snd (check_policy qg rw orig) = [])
        \<and> risk_level (check qg orig rw) \<noteq> ''high'')
   \<and> needs_review (check qg orig rw)
     = (risk_level (check qg orig rw) = ''medium'' \<or> risk_level (check qg orig rw) = ''high''
        \<or> fst (check_similarity qg (dict_get (ex_text orig) []) (dict_get (body_markdown rw) []))
        \<or> check_sanity qg rw \<noteq> [])
   \<and> risk_level (check qg orig rw) = fst (check_policy qg rw orig)
   \<and> (issues (check qg orig rw) = [])
     = (\<not> fst (check_similarity qg (dict_get (ex_text orig) []) (dict_get (body_markdown rw) []))
         \<and> check_sanity qg rw = [] \<and> snd (check_policy qg rw orig) = [])"
  by (simp add: check_def Let_def)

lemma short_rewrite_sanity:
  "check_sanity example_gates short_rewrite
     = [''Articolo troppo corto: 2 parole (min: 200)'', ''Corpo articolo vuoto o troppo corto'',
        ''Ripetizioni eccessive nel contenuto'']"
  by code_simp

lemma short_rewrite_policy:
  "check_policy example_gates short_rewrite example_original = (''low'', [])"
  by code_simp

lemma short_rewrite_similarity:
  "check_similarity example_gates (dict_get (ex_text example_original) [])
     (dict_get (body_markdown short_rewrite) []) = (False, 1 / 2)"
  by (simp add: check_similarity_def example_gates_def default_quality_gates_def
      half_similarity_def)

theorem check_aggregate_witness:
  "ok (check example_gates example_original short_rewrite) = False
   \<and> needs_review (check example_gates example_original short_rewrite) = True
   \<and> risk_level (check example_gates example_original short_rewrite) = ''low''"
  using check_aggregate [of example_gates example_original short_rewrite]
  by (simp add: short_rewrite_sanity short_rewrite_policy short_rewrite_similarity)

lemma fold_inv:
  assumes "\<And>k st. policy_inv st \<Longrightarrow> policy_inv (f k st)"
  shows "policy_inv st \<Longrightarrow> policy_inv (fold f ks st)"
proof (induction ks arbitrary: st)
  case Nil
  then show ?case by simp
next
  case (Cons k ks)
  from Cons.prems have "policy_inv (f k st)" by (rule assms)
  then have "policy_inv (fold f ks (f k st))" by (rule Cons.IH)
  then show ?case by simp
qed

lemma high_step_inv:
  "policy_inv st \<Longrightarrow> policy_inv (high_step c k st)"
  by (simp add: policy_inv_def high_step_def)

lemma medium_step_inv:
  "policy_inv st \<Longrightarrow> policy_inv (medium_step c k st)"
  by (auto simp: policy_inv_def medium_step_def)

lemma sensitive_step_inv:
  "policy_inv st \<Longrightarrow> policy_inv (sensitive_step qg c k st)"
  by (simp add: policy_inv_def sensitive_step_def)

lemma check_policy_inv:
  "policy_inv (check_policy qg rw orig)"
proof -
  have start: "policy_inv (''low'', [])"
    by (simp add: policy_inv_def)
  have high: "policy_inv (fold (high_step c) ks (''low'', []))" for c ks
    using high_step_inv start by (rule fold_inv [where f = "high_step c"])
  have medium: "policy_inv st \<Longrightarrow> policy_inv (fold (medium_step c) ks st)" for c ks st
    using medium_step_inv by (rule fold_inv [where f = "medium_step c"])
  have sensitive: "policy_inv st \<Longrightarrow> policy_inv (fold (sensitive_step qg c) ks st)" for c ks st
    using sensitive_step_inv by (rule fold_inv [where f = "sensitive_step qg c"])
  show ?thesis
    unfolding check_policy_def Let_def
    by (rule sensitive) (simp add: high medium)
qed

text \<open>
  C9.  A verdict of \<open>check\<close> that does not pass asks for review: every issue of the
  policy check comes with a risk level of \<open>medium\<close> or \<open>high\<close>, and every other issue
  sets \<open>needs_review\<close> by itself.
\<close>

theorem failed_verdict_needs_review:
  assumes "\<not> ok (check qg orig rw)"
  shows "needs_review (check qg orig rw)"
proof -
  have "(fst (check_policy qg rw orig) = ''low'' \<and> snd (check_policy qg rw orig) = [])
        \<or> fst (check_policy qg rw orig) = ''medium''
        \<or> fst (check_policy qg rw orig) = ''high''"
    using check_policy_inv [of qg rw orig] by (simp add: policy_inv_def)
  with assms show ?thesis
    unfolding check_ok check_needs_review by blast
qed

theorem failed_verdict_needs_review_witness:
  "\<not> ok (check example_gates example_original short_rewrite)
   \<and> needs_review (check example_gates example_original short_rewrite)"
proof -
  have failed: "\<not> ok (check example_gates example_original short_rewrite)"
    by (simp add: check_ok short_rewrite_sanity)
  from failed failed_verdict_needs_review [OF failed] show ?thesis
    by (rule conjI)
qed

section \<open>Properties of the article orchestrator\<close>

lemma process_article_short_title:
  assumes "extract_article env (cand_url c) (cand_source c) = Returns ex"
      and "100 \<le> length (py_strip (dict_get (ex_text ex) []))"
      and "length (py_strip (dict_get (ex_title ex) [])) < 10"
  shows "\<exists>oc w'. process_article env c w = (Returns oc, w')
           \<and> status oc = ''skipped''
           \<and> outcome_reason oc
               = Some (''empty_title: '' @ str_nat (length (py_strip (dict_get (ex_title ex) [])))
                         @ '' caratteri'')
           \<and> post_id oc = None
           \<and> timing oc ''total'' = None
           \<and> timing oc ''extract'' \<noteq> None
           \<and> calls w' = calls w @ [CallExtract (cand_url c) (cand_source c)]
           \<and> dedupe_db w' = dedupe_db w"
proof -
  from assms(2) have "py_strip (dict_get (ex_text ex) []) \<noteq> []" by auto
  with assms show ?thesis
    by (simp add: process_article_def try_block_def read_clock_def add_call_def mk_outcome_def
        Let_def)
qed

text \<open>
  C5.  When the extraction returns a text of at least 100 characters and a title of fewer
  than 10 (both counted after stripping, as the code counts them), \<open>process_article\<close>
  returns the status \<open>skipped\<close> with the reason \<open>empty_title: N caratteri\<close>, \<open>N\<close> the
  length of the title, and the only call it has made is the extraction: \<open>check_duplicate\<close>
  is not called and the table of the Deduplicator is as before.
\<close>

theorem short_title_skipped:
  assumes "extract_article env (cand_url c) (cand_source c) = Returns ex"
      and "100 \<le> length (py_strip (dict_get (ex_text ex) []))"
      and "length (py_strip (dict_get (ex_title ex) [])) < 10"
  shows "\<exists>oc w'. process_article env c w = (Returns oc, w')
           \<and> status oc = ''skipped''
           \<and> outcome_reason oc
               = Some (''empty_title: '' @ str_nat (length (py_strip (dict_get (ex_title ex) [])))
                         @ '' caratteri'')
           \<and> calls w' = calls w @ [CallExtract (cand_url c) (cand_source c)]
           \<and> dedupe_db w' = dedupe_db w"
  using process_article_short_title [OF assms, of w] by blast

lemma hello_extracted:
  "extract_article example_pipeline (cand_url (example_candidate ''https://example.org/hello''))
       (cand_source (example_candidate ''https://example.org/hello''))
     = Returns \<lparr> ex_url = Some ''https://example.org/hello'',
                  ex_canonical_url = Some ''https://example.org/hello'',
                  ex_title = Some ''Hello'', ex_text = Some long_text \<rparr>"
  by (simp add: example_pipeline_def example_extract_def example_candidate_def)

lemma hello_lengths:
  "length (py_strip long_text) = 335"
  "py_strip ''Hello'' = ''Hello''"
  "str_nat 5 = ''5''"
  by code_simp+

theorem short_title_skipped_witness:
  "\<exists>oc w'. process_article example_pipeline (example_candidate ''https://example.org/hello'')
               empty_world = (Returns oc, w')
           \<and> status oc = ''skipped''
           \<and> outcome_reason oc = Some ''empty_title: 5 caratteri''
           \<and> calls w' = [CallExtract ''https://example.org/hello'' (Some ''Example'')]
           \<and> dedupe_db w' = []"
proof -
  let ?ex = "\<lparr> ex_url = Some ''https://example.org/hello'',
                ex_canonical_url = Some ''https://example.org/hello'',
                ex_title = Some ''Hello'', ex_text = Some long_text \<rparr>"
  have h2: "100 \<le> length (py_strip (dict_get (ex_text ?ex) []))"
    by (simp add: dict_get_def hello_lengths)
  have h3: "length (py_strip (dict_get (ex_title ?ex) [])) < 10"
    by (simp add: dict_get_def hello_lengths)
  have why: "''empty_title: '' @ str_nat (length (py_strip (dict_get (ex_title ?ex) [])))
                 @ '' caratteri'' = ''empty_title: 5 caratteri''"
    by code_simp
  from short_title_skipped [OF hello_extracted h2 h3, of empty_world, unfolded why]
  show ?thesis
    by (simp add: example_candidate_def empty_world_def)
qed

text \<open>
  C6 at a concrete candidate: the outcome of the skipped article has an \<open>extract\<close> timing
  and no \<open>total\<close>.
\<close>

theorem skipped_outcome_without_total:
  "\<exists>oc w'. process_article example_pipeline (example_candidate ''https://example.org/hello'')
               empty_world = (Returns oc, w')
           \<and> status oc = ''skipped''
           \<and> timing oc ''extract'' \<noteq> None
           \<and> timing oc ''total'' = None"
proof -
  let ?ex = "\<lparr> ex_url = Some ''https://example.org/hello'',
                ex_canonical_url = Some ''https://example.org/hello'',
                ex_title = Some ''Hello'', ex_text = Some long_text \<rparr>"
  have h2: "100 \<le> length (py_strip (dict_get (ex_text ?ex) []))"
    by (simp add: dict_get_def hello_lengths)
  have h3: "length (py_strip (dict_get (ex_title ?ex) [])) < 10"
    by (simp add: dict_get_def hello_lengths)
  from process_article_short_title [OF hello_extracted h2 h3, of empty_world]
  show ?thesis by blast
qed

section \<open>Properties of the run orchestrator\<close>

lemma publish_stage_frame:
  "reports (snd (snd (publish_stage env ex url title rw qr t0 tm w))) = reports w"
  "status_file (snd (snd (publish_stage env ex url title rw qr t0 tm w))) = status_file w"
  "audit_log (snd (snd (publish_stage env ex url title rw qr t0 tm w))) = audit_log w"
  by (simp_all add: publish_stage_def read_clock_def read_timestamp_def add_call_def Let_def
      split: option.splits py_result.splits)

lemma rewrite_stage_frame:
  "reports (snd (snd (rewrite_stage env ex url title t0 tm w))) = reports w"
  "status_file (snd (snd (rewrite_stage env ex url title t0 tm w))) = status_file w"
  "audit_log (snd (snd (rewrite_stage env ex url title t0 tm w))) = audit_log w"
  by (simp_all add: rewrite_stage_def read_clock_def add_call_def Let_def publish_stage_frame
      split: py_result.splits)

lemma dedupe_stage_frame:
  "reports (snd (snd (dedupe_stage env ex t0 tm w))) = reports w"
  "status_file (snd (snd (dedupe_stage env ex t0 tm w))) = status_file w"
  "audit_log (snd (snd (dedupe_stage env ex t0 tm w))) = audit_log w"
  by (simp_all add: dedupe_stage_def read_clock_def add_call_def Let_def rewrite_stage_frame
      split: option.splits)

lemma try_block_frame:
  "reports (snd (snd (try_block env c t0 w))) = reports w"
  "status_file (snd (snd (try_block env c t0 w))) = status_file w"
  "audit_log (snd (snd (try_block env c t0 w))) = audit_log w"
  by (simp_all add: try_block_def read_clock_def add_call_def Let_def dedupe_stage_frame
      split: py_result.splits)

lemma process_article_frame:
  "reports (snd (process_article env c w)) = reports w"
  "status_file (snd (process_article env c w)) = status_file w"
  "audit_log (snd (process_article env c w)) = audit_log w"
  by (simp_all add: process_article_def read_clock_def Let_def split_def try_block_frame
      split: py_result.splits)

lemma process_article_raises:
  assumes "try_block env c (time_at env (clock w)) (w\<lparr>clock := Suc (clock w)\<rparr>) = (Raises e, tm, w')"
  shows "\<exists>oc w''. process_article env c w = (Returns oc, w'') \<and> status oc = ''failed''
           \<and> outcome_reason oc = Some e \<and> timing oc ''total'' \<noteq> None"
  using assms by (simp add: process_article_def read_clock_def Let_def mk_outcome_def)

lemma update_stats_fields:
  "processed (update_stats oc s) = processed s"
  "total_candidates (update_stats oc s) = total_candidates s"
  "run_id (update_stats oc s) = run_id s"
  "failed (update_stats oc s) = (if status oc = ''failed'' then failed s + 1 else failed s)"
  by (simp_all add: update_stats_def)

lemma process_candidates_frame:
  "reports (snd (snd (process_candidates env n i cs s w))) = reports w
   \<and> run_id (fst (snd (process_candidates env n i cs s w))) = run_id s"
proof (induction cs arbitrary: i s w)
  case Nil
  then show ?case by simp
next
  case (Cons c cs)
  let ?s1 = "s\<lparr>current_article :=
                 Some \<lparr> ca_url = cand_url c, ca_title = take 80 (dict_get (cand_title c) []),
                        ca_number = i, ca_total = n \<rparr>\<rparr>"
  obtain r w2 where pa: "process_article env c (save_status ?s1 w) = (r, w2)"
    by (cases "process_article env c (save_status ?s1 w)") auto
  have "reports (snd (process_article env c (save_status ?s1 w))) = reports (save_status ?s1 w)"
    by (rule process_article_frame)
  with pa have fr: "reports w2 = reports w"
    by (simp add: save_status_def)
  show ?case
  proof (cases r)
    case (Returns oc)
    with pa fr show ?thesis
      by (simp add: Let_def Cons.IH log_operation_def add_call_def update_stats_fields)
  next
    case (Raises e)
    with pa fr show ?thesis by simp
  next
    case Interrupted
    with pa fr show ?thesis by simp
  qed
qed

lemma run_body_frame:
  "reports (snd (snd (run_body env limit s w))) = reports w"
  "run_id (fst (snd (run_body env limit s w))) = run_id s"
  by (simp_all add: run_body_def process_candidates_frame save_status_def Let_def
      split: py_result.splits)

lemma run_completes:
  "\<exists>final. status_file (run env rid limit w) = Some final
      \<and> run_status final = ''completed''
      \<and> current_step final = ''completed''
      \<and> current_article final = None
      \<and> completed_at final \<noteq> None
      \<and> run_id final = rid
      \<and> reports (run env rid limit w) = reports w @ [(rid, final)]"
  by (simp add: run_def finalize_def read_timestamp_def save_status_def initial_stats_def
      Let_def split_def run_body_frame)

text \<open>One round of the loop for a candidate whose processing returns an outcome.\<close>

lemma loop_round:
  assumes "\<forall>w. \<exists>oc w'. process_article env c w = (Returns oc, w') \<and> P (status oc)"
  shows "\<exists>(oc :: outcome) s' w'. process_candidates env n i (c # rest) s w
                      = process_candidates env n (Suc i) rest s' w'
           \<and> P (status oc)
           \<and> processed s' = processed s + 1
           \<and> total_candidates s' = total_candidates s
           \<and> failed s' = (if status oc = ''failed'' then failed s + 1 else failed s)
           \<and> (\<exists>a. audit_log w' = audit_log w @ [a] \<and> au_url a = cand_url c
                   \<and> au_status a = status oc)"
proof -
  let ?s1 = "s\<lparr>current_article :=
                 Some \<lparr> ca_url = cand_url c, ca_title = take 80 (dict_get (cand_title c) []),
                        ca_number = i, ca_total = n \<rparr>\<rparr>"
  from assms obtain oc w2 where
    pa: "process_article env c (save_status ?s1 w) = (Returns oc, w2)" and p: "P (status oc)"
    by blast
  have "audit_log (snd (process_article env c (save_status ?s1 w))) = audit_log (save_status ?s1 w)"
    by (rule process_article_frame)
  with pa have fr: "audit_log w2 = audit_log w"
    by (simp add: save_status_def)
  let ?s' = "update_stats oc (?s1\<lparr>processed := processed ?s1 + 1\<rparr>)"
  let ?w' = "if i < n then add_call CallSleep (log_operation c oc w2) else log_operation c oc w2"
  have step: "process_candidates env n i (c # rest) s w
                = process_candidates env n (Suc i) rest ?s' ?w'"
    using pa by (simp add: Let_def)
  have counts: "processed ?s' = processed s + 1" "total_candidates ?s' = total_candidates s"
      "failed ?s' = (if status oc = ''failed'' then failed s + 1 else failed s)"
    by (simp_all add: update_stats_fields)
  have "\<exists>a. audit_log ?w' = audit_log w @ [a] \<and> au_url a = cand_url c
                 \<and> au_status a = status oc"
    using fr by (simp add: log_operation_def add_call_def)
  then obtain a where log: "audit_log ?w' = audit_log w @ [a]" "au_url a = cand_url c"
      "au_status a = status oc"
    by blast
  show ?thesis
    using step p counts log by (intro exI conjI) assumption+
qed

lemma run_three_candidates:
  assumes fetched: "fetch_all env limit = Returns [c1, c2, c3]"
      and first: "\<forall>w. \<exists>oc w'. process_article env c1 w = (Returns oc, w') \<and> status oc \<noteq> ''failed''"
      and second: "\<forall>t w. \<exists>e tm w'. try_block env c2 t w = (Raises e, tm, w')"
      and third: "\<forall>w. \<exists>oc w'. process_article env c3 w = (Returns oc, w') \<and> status oc \<noteq> ''failed''"
  shows "\<exists>final. status_file (run env rid limit w) = Some final
           \<and> run_status final = ''completed''
           \<and> total_candidates final = 3
           \<and> processed final = 3
           \<and> failed final = 1
           \<and> (\<exists>a1 a2 a3. audit_log (run env rid limit w) = audit_log w @ [a1, a2, a3]
                 \<and> au_url a1 = cand_url c1 \<and> au_status a1 \<noteq> ''failed''
                 \<and> au_url a2 = cand_url c2 \<and> au_status a2 = ''failed''
                 \<and> au_url a3 = cand_url c3 \<and> au_status a3 \<noteq> ''failed'')"
proof -
  have second': "\<forall>w. \<exists>oc w'. process_article env c2 w = (Returns oc, w') \<and> status oc = ''failed''"
  proof
    fix w0
    from second obtain e tm w' where
      "try_block env c2 (time_at env (clock w0)) (w0\<lparr>clock := Suc (clock w0)\<rparr>) = (Raises e, tm, w')"
      by blast
    from process_article_raises [OF this]
    show "\<exists>oc w'. process_article env c2 w0 = (Returns oc, w') \<and> status oc = ''failed''"
      by blast
  qed
  obtain now0 w0 where clock0: "read_timestamp env w = (now0, w0)"
    by (cases "read_timestamp env w") auto
  let ?n = "length [c1, c2, c3]"
  let ?init = "initial_stats rid now0"
  let ?s0 = "?init\<lparr>total_candidates := ?n, current_step := ''processing''\<rparr>"
  let ?w0 = "save_status ?s0 (save_status ?init w0)"
  have audit0: "audit_log ?w0 = audit_log w"
    using clock0 by (auto simp: read_timestamp_def save_status_def)
  have start0: "processed ?s0 = 0" "failed ?s0 = 0" "total_candidates ?s0 = 3"
    by (simp_all add: initial_stats_def)
  from loop_round [OF first, of ?n 1 "[c2, c3]" ?s0 ?w0]
  obtain oc1 :: outcome and s1 w1 a1 where
    r1: "process_candidates env ?n 1 [c1, c2, c3] ?s0 ?w0
           = process_candidates env ?n (Suc 1) [c2, c3] s1 w1"
    and n1: "status oc1 \<noteq> ''failed''" "processed s1 = processed ?s0 + 1"
      "total_candidates s1 = total_candidates ?s0"
      "failed s1 = (if status oc1 = ''failed'' then failed ?s0 + 1 else failed ?s0)"
    and l1: "audit_log w1 = audit_log ?w0 @ [a1]" "au_url a1 = cand_url c1"
      "au_status a1 = status oc1"
    by blast
  from loop_round [OF second', of ?n "Suc 1" "[c3]" s1 w1]
  obtain oc2 :: outcome and s2 w2 a2 where
    r2: "process_candidates env ?n (Suc 1) [c2, c3] s1 w1
           = process_candidates env ?n (Suc (Suc 1)) [c3] s2 w2"
    and n2: "status oc2 = ''failed''" "processed s2 = processed s1 + 1"
      "total_candidates s2 = total_candidates s1"
      "failed s2 = (if status oc2 = ''failed'' then failed s1 + 1 else failed s1)"
    and l2: "audit_log w2 = audit_log w1 @ [a2]" "au_url a2 = cand_url c2"
      "au_status a2 = status oc2"
    by blast
  from loop_round [OF third, of ?n "Suc (Suc 1)" "[]" s2 w2]
  obtain oc3 :: outcome and s3 w3 a3 where
    r3: "process_candidates env ?n (Suc (Suc 1)) [c3] s2 w2
           = process_candidates env ?n (Suc (Suc (Suc 1))) [] s3 w3"
    and n3: "status oc3 \<noteq> ''failed''" "processed s3 = processed s2 + 1"
      "total_candidates s3 = total_candidates s2"
      "failed s3 = (if status oc3 = ''failed'' then failed s2 + 1 else failed s2)"
    and l3: "audit_log w3 = audit_log w2 @ [a3]" "au_url a3 = cand_url c3"
      "au_status a3 = status oc3"
    by blast
  have counts: "processed s3 = 3" "failed s3 = 1" "total_candidates s3 = 3"
    using n1 n2 n3 start0 by simp_all
  have logs: "audit_log w3 = audit_log w @ [a1, a2, a3]"
    using l1 l2 l3 audit0 by simp
  have "run_body env limit ?init (save_status ?init w0)
          = process_candidates env ?n 1 [c1, c2, c3] ?s0 ?w0"
    by (simp only: run_body_def fetched py_result.case Let_def)
  also have "\<dots> = process_candidates env ?n (Suc 1) [c2, c3] s1 w1" by (rule r1)
  also have "\<dots> = process_candidates env ?n (Suc (Suc 1)) [c3] s2 w2" by (rule r2)
  also have "\<dots> = process_candidates env ?n (Suc (Suc (Suc 1))) [] s3 w3" by (rule r3)
  also have "\<dots> = (Returns (), s3, w3)" by simp
  finally have body: "run_body env limit ?init (save_status ?init w0) = (Returns (), s3, w3)" .
  have "run env rid limit w = finalize env s3 w3"
    using clock0 body by (simp add: run_def Let_def)
  then show ?thesis
    using counts logs n1 n2 n3 l1 l2 l3
    by (simp add: finalize_def read_timestamp_def save_status_def Let_def)
qed


lemma too_short_examples:
  "py_strip ''Too short.'' = ''Too short.''"
  "py_strip ''Breaking News: Rome!'' = ''Breaking News: Rome!''"
  by code_simp+

lemma example_short_content:
  assumes "url \<noteq> ''https://example.org/broken''" and "url \<noteq> ''https://example.org/hello''"
  shows "\<exists>oc w'. process_article example_pipeline (example_candidate url) w = (Returns oc, w')
           \<and> status oc \<noteq> ''failed''"
  using assms
  by (simp add: process_article_def try_block_def read_clock_def add_call_def mk_outcome_def
      Let_def example_pipeline_def example_extract_def example_candidate_def dict_get_def
      too_short_examples)

lemma example_broken:
  "\<exists>e tm w'. try_block example_pipeline (example_candidate ''https://example.org/broken'') t w
     = (Raises e, tm, w')"
  by (simp add: try_block_def read_clock_def add_call_def Let_def example_pipeline_def
      example_extract_def example_candidate_def)


section \<open>Properties of the monitor\<close>

lemma loop_polls_running:
  "is_running m \<Longrightarrow> loop_polls k m = m"
  by (induction k) (simp_all add: loop_poll_def)

lemma first_start:
  "start now (Returns ()) (new_monitor n)
     = (Returns (),
        log_line ''info'' (''Monitor avviato (controllo ogni '' @ str_nat n @ '' secondi)'')
          ((new_monitor n)\<lparr>is_running := True,
               stats := (stats (new_monitor n))\<lparr>running := True, monitor_started_at := Some now\<rparr>,
               stats_file := Some ((stats (new_monitor n))\<lparr>running := True,
                                     monitor_started_at := Some now\<rparr>),
               pipeline_built := True, live_loops := 1\<rparr>))"
  by (simp add: start_def new_monitor_def save_stats_def log_line_def Let_def)

lemma running_without_stop:
  "is_running m \<Longrightarrow> OpStop \<notin> set ops
     \<Longrightarrow> is_running (fold apply_op ops m) \<and> live_loops (fold apply_op ops m) = live_loops m"
proof (induction ops arbitrary: m)
  case Nil
  then show ?case by simp
next
  case (Cons op ops)
  have step: "is_running (apply_op op m) \<and> live_loops (apply_op op m) = live_loops m"
    using Cons.prems by (cases op) (simp_all add: start_def log_line_def loop_poll_def)
  have rest: "OpStop \<notin> set ops"
    using Cons.prems by simp
  from step have "is_running (apply_op op m)" by simp
  from Cons.IH [OF this rest] step show ?case by simp
qed




end
